theory Spec2Isabelle
  imports Main "HOL-Library.Sublist"
begin

section \<open>JavaScript primitives used by the token utility\<close>

text \<open>
  Strings are lists of 8-bit characters. JavaScript numbers are modelled as \<open>int\<close>, with
  \<open>NaN\<close> as \<open>None\<close> where \<open>parseInt\<close> can produce it. A JavaScript number is a
  double: the model is the code on the safe integers (\<open>safe_integer\<close> below), where
  double arithmetic is integer arithmetic, and a statement that depends on the value of a
  sum, of \<open>String\<close> or of \<open>parseInt\<close> carries that range as a hypothesis.

  \<open>falsy\<close> is JavaScript's \<open>!v\<close> and \<open>or_default\<close> is \<open>v || d\<close>, both on a
  value of type \<open>string | null\<close>: \<open>null\<close> and the empty string are falsy.
\<close>

definition falsy :: "string option \<Rightarrow> bool" where
  "falsy v = (case v of None \<Rightarrow> True | Some s \<Rightarrow> s = [])"

definition or_default :: "string option \<Rightarrow> string \<Rightarrow> string" where
  "or_default v d = (case v of None \<Rightarrow> d | Some s \<Rightarrow> if s = [] then d else s)"

subsection \<open>parseInt with no radix argument\<close>

definition is_white_space :: "char \<Rightarrow> bool" where
  "is_white_space c =
     (let n = (of_char c :: nat)
      in n = 9 \<or> n = 10 \<or> n = 11 \<or> n = 12 \<or> n = 13 \<or> n = 32 \<or> n = 160)"

definition digit_value :: "char \<Rightarrow> nat option" where
  "digit_value c =
     (let n = (of_char c :: nat)
      in if 48 \<le> n \<and> n \<le> 57 then Some (n - 48)
         else if 97 \<le> n \<and> n \<le> 122 then Some (n - 87)
         else if 65 \<le> n \<and> n \<le> 90 then Some (n - 55)
         else None)"

definition radix_digit :: "nat \<Rightarrow> char \<Rightarrow> bool" where
  "radix_digit R c = (case digit_value c of None \<Rightarrow> False | Some d \<Rightarrow> d < R)"

definition digits_value :: "nat \<Rightarrow> string \<Rightarrow> nat" where
  "digits_value R Z =
     foldl (\<lambda>a c. case digit_value c of None \<Rightarrow> a | Some d \<Rightarrow> a * R + d) 0 Z"

text \<open>
  \<open>parseInt\<close>: leading white space is dropped, one sign is read, a \<open>0x\<close> or \<open>0X\<close>
  prefix selects radix 16, and the longest prefix of digits is the value. No digit at all
  gives \<open>NaN\<close>. The value is the integer the digits denote; the code returns the double
  nearest to it, which is that integer when it is a safe integer.
\<close>

definition parseInt :: "string \<Rightarrow> int option" where
  "parseInt str =
     (let S = dropWhile is_white_space str;
          sign = (case S of c # _ \<Rightarrow> if c = CHR ''-'' then - 1 else 1 | [] \<Rightarrow> (1::int));
          S1 = (case S of c # rest \<Rightarrow> if c = CHR ''+'' \<or> c = CHR ''-'' then rest else S
                | [] \<Rightarrow> S);
          hex = (take 2 S1 = ''0x'' \<or> take 2 S1 = ''0X'');
          R = (if hex then 16 else 10);
          S2 = (if hex then drop 2 S1 else S1);
          Z = takeWhile (radix_digit R) S2
      in if Z = [] then None else Some (sign * int (digits_value R Z)))"

subsection \<open>String applied to an integer number\<close>

text \<open>
  \<open>String_number\<close> is the decimal notation of an integer, which is what \<open>String\<close> gives
  for a safe integer. (From \<open>10 ^ 21\<close> on the code writes an exponent, and between the
  safe integers and \<open>10 ^ 21\<close> it writes the shortest digits that identify the double.)
\<close>

definition digit_char :: "nat \<Rightarrow> char" where
  "digit_char d = char_of (48 + d)"

fun decimal :: "nat \<Rightarrow> string" where
  "decimal n = (if n < 10 then [digit_char n] else decimal (n div 10) @ [digit_char (n mod 10)])"

declare decimal.simps [simp del]

definition String_number :: "int \<Rightarrow> string" where
  "String_number i = (if i < 0 then CHR ''-'' # decimal (nat (- i)) else decimal (nat i))"

subsection \<open>Safe integers\<close>



subsection \<open>encodeURIComponent\<close>

definition uri_unreserved :: "char \<Rightarrow> bool" where
  "uri_unreserved c =
     (let n = (of_char c :: nat)
      in (48 \<le> n \<and> n \<le> 57) \<or> (65 \<le> n \<and> n \<le> 90) \<or> (97 \<le> n \<and> n \<le> 122)
         \<or> n = 45 \<or> n = 95 \<or> n = 46 \<or> n = 33 \<or> n = 126 \<or> n = 42 \<or> n = 39
         \<or> n = 40 \<or> n = 41)"

definition hex_upper :: "nat \<Rightarrow> char" where
  "hex_upper d = (if d < 10 then char_of (48 + d) else char_of (55 + d))"

definition percent_byte :: "nat \<Rightarrow> string" where
  "percent_byte b = [CHR ''%'', hex_upper (b div 16), hex_upper (b mod 16)]"

definition encode_char :: "char \<Rightarrow> string" where
  "encode_char c =
     (let n = (of_char c :: nat)
      in if uri_unreserved c then [c]
         else if n < 128 then percent_byte n
         else percent_byte (192 + n div 64) @ percent_byte (128 + n mod 64))"

definition encodeURIComponent :: "string \<Rightarrow> string" where
  "encodeURIComponent s = concat (map encode_char s)"

section \<open>Data model\<close>

text \<open>The \<open>Session\<close> interface; its \<open>token_type\<close> field is the constant \<open>bearer\<close>.\<close>

record session =
  access_token :: string
  refresh_token :: string
  expires_in :: int

text \<open>
  A response carries its status and its body. \<open>json\<close> is \<open>response.json()\<close> followed by
  the cast \<open>as Session\<close>: the cast is trusted, so a body is either a Session object or
  something on which \<open>json()\<close> rejects. A body that is valid JSON without being a Session
  is outside the model (the code would go on with undefined fields); a statement about
  what is written after an answer says, by a hypothesis, that the answer carries a Session.
\<close>

datatype body = Session_body session | Other_body string

record response =
  status :: nat
  content :: body

definition ok :: "response \<Rightarrow> bool" where
  "ok r = (200 \<le> status r \<and> status r \<le> 299)"

definition json :: "response \<Rightarrow> session option" where
  "json r = (case content r of Session_body s \<Rightarrow> Some s | Other_body _ \<Rightarrow> None)"

datatype http_method = GET | POST

record request =
  req_method :: http_method
  req_url :: string
  req_headers :: "(string \<times> string) list"
  req_body :: "(string \<times> string) list option"

text \<open>\<open>fetch\<close> either rejects (a network failure) or resolves with a response.\<close>

datatype fetch_result = Rejected | Resolved response

text \<open>Every effect of the code is logged, in order.\<close>

datatype event =
    GetItem string
  | SetItem string string
  | RemoveItem string
  | Now int
  | Fetch request fetch_result
  | Navigate string

text \<open>
  The environment: the build-time variable \<open>VITE_TONE3000_API_DOMAIN\<close>, the clock
  (the k-th reading of \<open>Date.now()\<close>) and the network (the answer to the k-th request).
\<close>

record env =
  vite_api_domain :: "string option"
  clock :: "nat \<Rightarrow> int"
  server :: "nat \<Rightarrow> request \<Rightarrow> fetch_result"

record world =
  localStorage :: "string \<rightharpoonup> string"
  href :: string
  ticks :: nat
  fetched :: nat
  trace :: "event list"

section \<open>Constants of the module\<close>

definition API_DOMAIN :: "env \<Rightarrow> string" where
  "API_DOMAIN e = or_default (vite_api_domain e) ''https://www.tone3000.com''"

definition redirectUrl :: string where
  "redirectUrl = encodeURIComponent ''http://localhost:3001''"

definition access_key :: string where
  "access_key = ''tone3000_access_token''"

definition refresh_key :: string where
  "refresh_key = ''tone3000_refresh_token''"

definition expires_key :: string where
  "expires_key = ''tone3000_expires_at''"

definition api_key_key :: string where
  "api_key_key = ''tone3000_api_key''"

definition refresh_url :: "env \<Rightarrow> string" where
  "refresh_url e = API_DOMAIN e @ ''/api/v1/auth/session/refresh''"

definition session_url :: "env \<Rightarrow> string" where
  "session_url e = API_DOMAIN e @ ''/api/v1/auth/session''"

definition auth_url :: "env \<Rightarrow> string" where
  "auth_url e = API_DOMAIN e @ ''/api/v1/auth?redirect_url='' @ redirectUrl"

section \<open>Effects\<close>

text \<open>
  Each effect of the code takes the world and returns the new one, with the effect
  appended to the log. \<open>setItem\<close> is taken not to fail (no storage quota), and the
  assignment to \<open>window.location.href\<close> only records the new location: the statements
  after it still run, as they do in the browser until the page unloads.
\<close>

definition getItem :: "string \<Rightarrow> world \<Rightarrow> string option \<times> world" where
  "getItem k w = (localStorage w k, w\<lparr>trace := trace w @ [GetItem k]\<rparr>)"

definition setItem :: "string \<Rightarrow> string \<Rightarrow> world \<Rightarrow> world" where
  "setItem k v w = w\<lparr>localStorage := (localStorage w)(k \<mapsto> v), trace := trace w @ [SetItem k v]\<rparr>"

definition removeItem :: "string \<Rightarrow> world \<Rightarrow> world" where
  "removeItem k w = w\<lparr>localStorage := (localStorage w)(k := None), trace := trace w @ [RemoveItem k]\<rparr>"

definition Date_now :: "env \<Rightarrow> world \<Rightarrow> int \<times> world" where
  "Date_now e w =
     (clock e (ticks w), w\<lparr>ticks := Suc (ticks w), trace := trace w @ [Now (clock e (ticks w))]\<rparr>)"

definition fetch :: "env \<Rightarrow> request \<Rightarrow> world \<Rightarrow> fetch_result \<times> world" where
  "fetch e rq w =
     (server e (fetched w) rq,
      w\<lparr>fetched := Suc (fetched w), trace := trace w @ [Fetch rq (server e (fetched w) rq)]\<rparr>)"

definition set_href :: "string \<Rightarrow> world \<Rightarrow> world" where
  "set_href u w = w\<lparr>href := u, trace := trace w @ [Navigate u]\<rparr>"

section \<open>The fetch wrapper\<close>

text \<open>The errors thrown in the module, and the two rejections of the platform.\<close>

datatype error =
    No_access_token
  | No_refresh_token
  | Token_refresh_failed
  | Auth_failed
  | Http_error nat
  | Fetch_rejected
  | Json_rejected

definition refresh_request :: "env \<Rightarrow> string \<Rightarrow> string \<Rightarrow> request" where
  "refresh_request e refreshToken accessToken =
     \<lparr>req_method = POST, req_url = refresh_url e,
      req_headers = [(''Content-Type'', ''application/json'')],
      req_body = Some [(''refresh_token'', refreshToken), (''access_token'', accessToken)]\<rparr>"

definition get_request :: "string \<Rightarrow> string \<Rightarrow> request" where
  "get_request url accessToken =
     \<lparr>req_method = GET, req_url = url,
      req_headers = [(''Authorization'', ''Bearer '' @ accessToken),
                     (''Content-Type'', ''application/json'')],
      req_body = None\<rparr>"

text \<open>
  The three \<open>setItem\<close> lines that store a Session (they occur three times in the
  source, character for character). The clock is read after the first two writes.
\<close>

definition store_session :: "env \<Rightarrow> session \<Rightarrow> world \<Rightarrow> world" where
  "store_session e tokens w =
     (let w1 = setItem access_key (access_token tokens) w;
          w2 = setItem refresh_key (refresh_token tokens) w1;
          (now, w3) = Date_now e w2
      in setItem expires_key (String_number (now + expires_in tokens * 1000)) w3)"

definition clear_tokens :: "world \<Rightarrow> world" where
  "clear_tokens w = removeItem expires_key (removeItem refresh_key (removeItem access_key w))"

text \<open>
  The body of both \<open>try\<close> blocks of \<open>t3kFetch\<close> up to and including the storing of the
  new tokens (the same text in the proactive and in the reactive block). \<open>Inl\<close> is the
  exception that reaches the \<open>catch\<close>.
\<close>

definition refresh_tokens :: "env \<Rightarrow> string \<Rightarrow> world \<Rightarrow> (error + session) \<times> world" where
  "refresh_tokens e accessToken w =
     (let (refreshToken, w1) = getItem refresh_key w
      in if falsy refreshToken then (Inl No_refresh_token, w1)
         else
           let (res, w2) = fetch e (refresh_request e (or_default refreshToken []) accessToken) w1
           in case res of
                Rejected \<Rightarrow> (Inl Fetch_rejected, w2)
              | Resolved refreshResponse \<Rightarrow>
                  if \<not> ok refreshResponse
                  then (Inl Token_refresh_failed, set_href (auth_url e) (clear_tokens w2))
                  else (case json refreshResponse of
                          None \<Rightarrow> (Inl Json_rejected, w2)
                        | Some tokens \<Rightarrow> (Inr tokens, store_session e tokens w2)))"

text \<open>
  The request and the reactive block. The first \<open>fetch\<close> is outside any \<open>try\<close>, so its
  rejection leaves the function as it is; everything thrown inside the \<open>try\<close> is replaced
  by the one error of the \<open>catch\<close>.
\<close>

definition request_with_retry :: "env \<Rightarrow> string \<Rightarrow> string \<Rightarrow> world \<Rightarrow> (error + response) \<times> world" where
  "request_with_retry e url accessToken w =
     (let (res, w1) = fetch e (get_request url accessToken) w
      in case res of
           Rejected \<Rightarrow> (Inl Fetch_rejected, w1)
         | Resolved response \<Rightarrow>
             if status response = 401 then
               (case refresh_tokens e accessToken w1 of
                  (Inl err, w2) \<Rightarrow> (Inl Auth_failed, w2)
                | (Inr tokens, w2) \<Rightarrow>
                    (let (res2, w3) = fetch e (get_request url (access_token tokens)) w2
                     in (case res2 of
                           Rejected \<Rightarrow> (Inl Auth_failed, w3)
                         | Resolved response2 \<Rightarrow> (Inr response2, w3))))
             else (Inr response, w1))"

text \<open>\<open>now > expiresAt - 30000\<close>, where \<open>expiresAt\<close> may be \<open>NaN\<close>: any comparison with \<open>NaN\<close> is false.\<close>

definition token_expiring :: "int \<Rightarrow> int option \<Rightarrow> bool" where
  "token_expiring now expiresAt =
     (case expiresAt of None \<Rightarrow> False | Some ex \<Rightarrow> now > ex - 30000)"

definition t3kFetch :: "env \<Rightarrow> string \<Rightarrow> world \<Rightarrow> (error + response) \<times> world" where
  "t3kFetch e url w =
     (let (accessToken, w1) = getItem access_key w;
          (expiresStr, w2) = getItem expires_key w1;
          expiresAt = parseInt (or_default expiresStr ''0'')
      in if falsy accessToken then (Inl No_access_token, w2)
         else
           let (now, w3) = Date_now e w2
           in if token_expiring now expiresAt then
                (case refresh_tokens e (or_default accessToken []) w3 of
                   (Inl err, w4) \<Rightarrow> (Inl Auth_failed, w4)
                 | (Inr tokens, w4) \<Rightarrow> request_with_retry e url (access_token tokens) w4)
              else request_with_retry e url (or_default accessToken []) w3)"

section \<open>The api_key exchange\<close>

text \<open>
  \<open>handleAuth\<close> of the \<open>App\<close> component, for the \<open>api_key\<close> found in the page URL. Its two
  last statements change the component's display state and the address bar only.
\<close>

definition session_request :: "env \<Rightarrow> string \<Rightarrow> request" where
  "session_request e apiKey =
     \<lparr>req_method = POST, req_url = session_url e, req_headers = [],
      req_body = Some [(''api_key'', apiKey)]\<rparr>"

definition handleAuth :: "env \<Rightarrow> string \<Rightarrow> world \<Rightarrow> (error + unit) \<times> world" where
  "handleAuth e apiKey w =
     (let (res, w1) = fetch e (session_request e apiKey) w
      in case res of
           Rejected \<Rightarrow> (Inl Fetch_rejected, w1)
         | Resolved response \<Rightarrow>
             if \<not> ok response then (Inl (Http_error (status response)), w1)
             else (case json response of
                     None \<Rightarrow> (Inl Json_rejected, w1)
                   | Some data \<Rightarrow> (Inr (), store_session e data w1)))"

section \<open>Observing a call\<close>

text \<open>
  What a call did is the part of the log it appended. A GET is a request to the caller's
  URL (the wrapper sends no other GET); a refresh begins with the reading of the stored
  refresh token and, when there is one, continues with a POST to the refresh endpoint.
\<close>

definition events_of :: "world \<Rightarrow> world \<Rightarrow> event list" where
  "events_of w w' = drop (length (trace w)) (trace w')"

fun is_fetch :: "event \<Rightarrow> bool" where
  "is_fetch (Fetch rq res) = True"
| "is_fetch ev = False"

fun is_get :: "event \<Rightarrow> bool" where
  "is_get (Fetch rq res) = (req_method rq = GET)"
| "is_get ev = False"

fun is_refresh_read :: "event \<Rightarrow> bool" where
  "is_refresh_read (GetItem k) = (k = refresh_key)"
| "is_refresh_read ev = False"

fun is_refresh_post :: "env \<Rightarrow> event \<Rightarrow> bool" where
  "is_refresh_post e (Fetch rq res) = (req_method rq = POST \<and> req_url rq = refresh_url e)"
| "is_refresh_post e ev = False"

fun is_navigate :: "event \<Rightarrow> bool" where
  "is_navigate (Navigate u) = True"
| "is_navigate ev = False"

definition before_first_get :: "event list \<Rightarrow> event list" where
  "before_first_get evs = takeWhile (\<lambda>ev. \<not> is_get ev) evs"

definition from_first_get :: "event list \<Rightarrow> event list" where
  "from_first_get evs = dropWhile (\<lambda>ev. \<not> is_get ev) evs"

text \<open>
  The spec's complete Session: all three persisted fields are present in the store.
\<close>

definition complete_session :: "world \<Rightarrow> bool" where
  "complete_session w =
     (localStorage w access_key \<noteq> None \<and> localStorage w refresh_key \<noteq> None
      \<and> localStorage w expires_key \<noteq> None)"





section \<open>Concrete stores and environments\<close>

text \<open>
  The Session \<open>A1\<close>, \<open>R1\<close> with a lifetime of 3600 seconds, stored at time 1000000, and
  stores that hold only a part of it.
\<close>

definition store_A1 :: world where
  "store_A1 =
     \<lparr>localStorage = [access_key \<mapsto> ''A1'', refresh_key \<mapsto> ''R1'', expires_key \<mapsto> ''4600000''],
      href = ''http://localhost:3001/'', ticks = 0, fetched = 0, trace = []\<rparr>"

definition store_no_refresh :: world where
  "store_no_refresh =
     \<lparr>localStorage = [access_key \<mapsto> ''A1'', expires_key \<mapsto> ''4600000''],
      href = ''http://localhost:3001/'', ticks = 0, fetched = 0, trace = []\<rparr>"

definition store_no_expiry :: world where
  "store_no_expiry =
     \<lparr>localStorage = [access_key \<mapsto> ''A1'', refresh_key \<mapsto> ''R1''],
      href = ''http://localhost:3001/'', ticks = 0, fetched = 0, trace = []\<rparr>"

definition store_NaN :: world where
  "store_NaN =
     \<lparr>localStorage = [access_key \<mapsto> ''A1'', refresh_key \<mapsto> ''R1'', expires_key \<mapsto> ''NaN''],
      href = ''http://localhost:3001/'', ticks = 0, fetched = 0, trace = []\<rparr>"

definition store_empty :: world where
  "store_empty =
     \<lparr>localStorage = Map.empty, href = ''http://localhost:3001/'', ticks = 0, fetched = 0,
      trace = []\<rparr>"

definition session_A2 :: session where
  "session_A2 = \<lparr>access_token = ''A2'', refresh_token = ''R2'', expires_in = 3600\<rparr>"

definition resp_session :: response where
  "resp_session = \<lparr>status = 200, content = Session_body session_A2\<rparr>"

definition resp_ok :: response where
  "resp_ok = \<lparr>status = 200, content = Other_body ''{}''\<rparr>"

definition resp_not_found :: response where
  "resp_not_found = \<lparr>status = 404, content = Other_body ''not found''\<rparr>"

definition resp_unauthorized :: response where
  "resp_unauthorized = \<lparr>status = 401, content = Other_body ''unauthorized''\<rparr>"

definition user_url :: string where
  "user_url = ''https://www.tone3000.com/api/v1/user''"

text \<open>Early in the token's life; the API answers 404.\<close>

definition env_early :: env where
  "env_early =
     \<lparr>vite_api_domain = None, clock = (\<lambda>k. 1010000 + int k),
      server = (\<lambda>k rq. if req_method rq = POST then Resolved resp_session
                        else Resolved resp_not_found)\<rparr>"

text \<open>Five seconds before the expiry; the refresh endpoint grants \<open>A2\<close>, \<open>R2\<close>.\<close>

definition env_late :: env where
  "env_late =
     \<lparr>vite_api_domain = None, clock = (\<lambda>k. 4595000 + int k),
      server = (\<lambda>k rq. if req_method rq = POST then Resolved resp_session
                        else Resolved resp_ok)\<rparr>"

text \<open>Early, but the API answers 401 to every GET; the refresh endpoint grants \<open>A2\<close>, \<open>R2\<close>.\<close>

definition env_unauthorized :: env where
  "env_unauthorized =
     \<lparr>vite_api_domain = None, clock = (\<lambda>k. 1010000 + int k),
      server = (\<lambda>k rq. if req_method rq = POST then Resolved resp_session
                        else Resolved resp_unauthorized)\<rparr>"

text \<open>Five seconds before the expiry; the refresh endpoint refuses the refresh token.\<close>

definition env_revoked :: env where
  "env_revoked =
     \<lparr>vite_api_domain = None, clock = (\<lambda>k. 4595000 + int k),
      server = (\<lambda>k rq. if req_method rq = POST then Resolved resp_unauthorized
                        else Resolved resp_ok)\<rparr>"

section \<open>Basic facts\<close>

lemma keys_distinct [simp]:
  "access_key \<noteq> refresh_key" "access_key \<noteq> expires_key" "refresh_key \<noteq> expires_key"
  "refresh_key \<noteq> access_key" "expires_key \<noteq> access_key" "expires_key \<noteq> refresh_key"
  "api_key_key \<noteq> access_key" "api_key_key \<noteq> refresh_key" "api_key_key \<noteq> expires_key"
  by (simp_all add: access_key_def refresh_key_def expires_key_def api_key_key_def)

lemma get_request_sel [simp]:
  "req_method (get_request url tok) = GET" "req_url (get_request url tok) = url"
  "req_body (get_request url tok) = None"
  "req_headers (get_request url tok) =
     [(''Authorization'', ''Bearer '' @ tok), (''Content-Type'', ''application/json'')]"
  by (simp_all add: get_request_def)

lemma refresh_request_sel [simp]:
  "req_method (refresh_request e rt tok) = POST"
  "req_url (refresh_request e rt tok) = refresh_url e"
  "req_body (refresh_request e rt tok) = Some [(''refresh_token'', rt), (''access_token'', tok)]"
  by (simp_all add: refresh_request_def)

lemma get_is_not_refresh [simp]:
  "get_request url tok \<noteq> refresh_request e rt tok'"
  "refresh_request e rt tok' \<noteq> get_request url tok"
  by (simp_all add: get_request_def refresh_request_def)

lemma redirectUrl_value: "redirectUrl = ''http%3A%2F%2Flocalhost%3A3001''"
  by (simp add: redirectUrl_def encodeURIComponent_def encode_char_def uri_unreserved_def
      percent_byte_def hex_upper_def Let_def char_of_def bit_Suc_0_iff)

subsection \<open>Reading back a stored number\<close>

lemma digit_char_table:
  "digit_char 0 = CHR ''0''" "digit_char 1 = CHR ''1''" "digit_char 2 = CHR ''2''"
  "digit_char 3 = CHR ''3''" "digit_char 4 = CHR ''4''" "digit_char 5 = CHR ''5''"
  "digit_char 6 = CHR ''6''" "digit_char 7 = CHR ''7''" "digit_char 8 = CHR ''8''"
  "digit_char 9 = CHR ''9''" "digit_char (Suc 0) = CHR ''1''"
  by (simp_all add: digit_char_def char_of_def bit_Suc_0_iff)

lemma digit_value_digit_char: "d < 10 \<Longrightarrow> digit_value (digit_char d) = Some d"
  by (simp add: digit_value_def digit_char_def Let_def)

lemma of_char_digit_char: "d < 10 \<Longrightarrow> of_char (digit_char d) = 48 + d"
  by (simp add: digit_char_def)

lemma decimal_chars: "c \<in> set (decimal n) \<Longrightarrow> \<exists>d<10. c = digit_char d"
proof (induction n arbitrary: c rule: decimal.induct)
  case (1 n)
  show ?case
  proof (cases "n < 10")
    case True
    with "1.prems" show ?thesis by (auto simp: decimal.simps [of n])
  next
    case False
    with "1.prems" have "c \<in> set (decimal (n div 10)) \<or> c = digit_char (n mod 10)"
      by (auto simp add: decimal.simps [of n])
    then show ?thesis
    proof
      assume "c \<in> set (decimal (n div 10))"
      with "1.IH" False show ?thesis by blast
    next
      assume "c = digit_char (n mod 10)"
      moreover have "n mod 10 < 10" by simp
      ultimately show ?thesis by blast
    qed
  qed
qed

lemma decimal_not_Nil: "decimal n \<noteq> []"
  by (subst decimal.simps) simp

lemma decimal_value: "digits_value 10 (decimal n) = n"
proof (induction n rule: decimal.induct)
  case (1 n)
  show ?case
  proof (cases "n < 10")
    case True
    then show ?thesis
      by (simp add: decimal.simps [of n] digits_value_def digit_value_digit_char)
  next
    case False
    with "1.IH" have "digits_value 10 (decimal (n div 10)) = n div 10" by simp
    with False show ?thesis
      by (simp add: decimal.simps [of n] digits_value_def digit_value_digit_char)
  qed
qed

lemma decimal_radix_digit: "c \<in> set (decimal n) \<Longrightarrow> radix_digit 10 c"
  using decimal_chars [of c n] by (auto simp: radix_digit_def digit_value_digit_char)

lemma decimal_no_space: "c \<in> set (decimal n) \<Longrightarrow> \<not> is_white_space c"
  using decimal_chars [of c n] by (auto simp: is_white_space_def of_char_digit_char Let_def)

lemma decimal_plain:
  assumes "c \<in> set (decimal n)"
  shows "c \<noteq> CHR ''-'' \<and> c \<noteq> CHR ''+'' \<and> c \<noteq> CHR ''x'' \<and> c \<noteq> CHR ''X''"
proof -
  from decimal_chars [OF assms] obtain d where d: "d < 10" "c = digit_char d" by blast
  then have "(of_char c :: nat) = 48 + d" by (simp add: of_char_digit_char)
  with d(1) have "48 \<le> (of_char c :: nat) \<and> (of_char c :: nat) < 58" by simp
  then show ?thesis by auto
qed

lemma decimal_no_hex_prefix: "take 2 (decimal n) \<noteq> ''0x'' \<and> take 2 (decimal n) \<noteq> ''0X''"
proof -
  have "CHR ''x'' \<notin> set (take 2 (decimal n))" "CHR ''X'' \<notin> set (take 2 (decimal n))"
    using decimal_plain [of _ n] by (blast dest: in_set_takeD)+
  then show ?thesis by auto
qed

lemma takeWhile_decimal: "takeWhile (radix_digit 10) (decimal n) = decimal n"
  using decimal_radix_digit [of _ n] by (simp add: takeWhile_eq_all_conv)

lemma parseInt_decimal: "parseInt (decimal n) = Some (int n)"
proof -
  obtain c cs where cs: "decimal n = c # cs"
    using decimal_not_Nil [of n] by (cases "decimal n") auto
  then have c: "c \<in> set (decimal n)" by simp
  have drop: "dropWhile is_white_space (decimal n) = decimal n"
    using cs decimal_no_space [OF c] by simp
  have sign: "(case decimal n of [] \<Rightarrow> 1 | c # x \<Rightarrow> if c = CHR ''-'' then - 1 else (1::int)) = 1"
    using cs decimal_plain [OF c] by simp
  have rest: "(case decimal n of [] \<Rightarrow> decimal n
      | c # rest \<Rightarrow> if c = CHR ''+'' \<or> c = CHR ''-'' then rest else decimal n) = decimal n"
    using cs decimal_plain [OF c] by simp
  show ?thesis
    unfolding parseInt_def drop Let_def sign rest
    using decimal_no_hex_prefix [of n] decimal_not_Nil [of n]
    by (simp add: takeWhile_decimal decimal_value)
qed

lemma parseInt_minus_decimal: "parseInt (CHR ''-'' # decimal n) = Some (- int n)"
proof -
  have ws: "\<not> is_white_space CHR ''-''" by (simp add: is_white_space_def)
  show ?thesis
    using decimal_no_hex_prefix [of n] decimal_not_Nil [of n] ws
    unfolding parseInt_def Let_def
    by (simp add: takeWhile_decimal decimal_value)
qed

lemma parseInt_String_number [simp]: "parseInt (String_number i) = Some i"
  by (simp add: String_number_def parseInt_decimal parseInt_minus_decimal)

subsection \<open>The paths through the wrapper\<close>

lemmas effect_defs = getItem_def setItem_def removeItem_def Date_now_def fetch_def set_href_def
  store_session_def clear_tokens_def

lemma refresh_tokensE:
  assumes "refresh_tokens e tok w = (r, w')"
  obtains
    (no_token) "falsy (localStorage w refresh_key)" "r = Inl No_refresh_token"
      "localStorage w' = localStorage w" "href w' = href w" "ticks w' = ticks w"
      "fetched w' = fetched w" "trace w' = trace w @ [GetItem refresh_key]"
  | (rejected) "\<not> falsy (localStorage w refresh_key)"
      "server e (fetched w) (refresh_request e (or_default (localStorage w refresh_key) []) tok) = Rejected"
      "r = Inl Fetch_rejected"
      "localStorage w' = localStorage w" "href w' = href w" "ticks w' = ticks w"
      "fetched w' = Suc (fetched w)"
      "trace w' = trace w @ [GetItem refresh_key,
           Fetch (refresh_request e (or_default (localStorage w refresh_key) []) tok) Rejected]"
  | (refused) rr where "\<not> falsy (localStorage w refresh_key)"
      "server e (fetched w) (refresh_request e (or_default (localStorage w refresh_key) []) tok) = Resolved rr"
      "\<not> ok rr" "r = Inl Token_refresh_failed"
      "localStorage w' = (localStorage w)(access_key := None, refresh_key := None, expires_key := None)"
      "href w' = auth_url e" "ticks w' = ticks w" "fetched w' = Suc (fetched w)"
      "trace w' = trace w @ [GetItem refresh_key,
           Fetch (refresh_request e (or_default (localStorage w refresh_key) []) tok) (Resolved rr),
           RemoveItem access_key, RemoveItem refresh_key, RemoveItem expires_key,
           Navigate (auth_url e)]"
  | (not_json) rr where "\<not> falsy (localStorage w refresh_key)"
      "server e (fetched w) (refresh_request e (or_default (localStorage w refresh_key) []) tok) = Resolved rr"
      "ok rr" "json rr = None" "r = Inl Json_rejected"
      "localStorage w' = localStorage w" "href w' = href w" "ticks w' = ticks w"
      "fetched w' = Suc (fetched w)"
      "trace w' = trace w @ [GetItem refresh_key,
           Fetch (refresh_request e (or_default (localStorage w refresh_key) []) tok) (Resolved rr)]"
  | (stored) rr s where "\<not> falsy (localStorage w refresh_key)"
      "server e (fetched w) (refresh_request e (or_default (localStorage w refresh_key) []) tok) = Resolved rr"
      "ok rr" "json rr = Some s" "r = Inr s"
      "localStorage w' = (localStorage w)(access_key \<mapsto> access_token s,
             refresh_key \<mapsto> refresh_token s,
             expires_key \<mapsto> String_number (clock e (ticks w) + expires_in s * 1000))"
      "href w' = href w" "ticks w' = Suc (ticks w)" "fetched w' = Suc (fetched w)"
      "trace w' = trace w @ [GetItem refresh_key,
           Fetch (refresh_request e (or_default (localStorage w refresh_key) []) tok) (Resolved rr),
           SetItem access_key (access_token s), SetItem refresh_key (refresh_token s),
           Now (clock e (ticks w)),
           SetItem expires_key (String_number (clock e (ticks w) + expires_in s * 1000))]"
  using assms unfolding refresh_tokens_def effect_defs Let_def
  by (auto split: fetch_result.splits option.splits if_splits)

lemma request_with_retryE:
  assumes "request_with_retry e url tok w = (r, w')"
  obtains
    (get_rejected) "server e (fetched w) (get_request url tok) = Rejected" "r = Inl Fetch_rejected"
      "localStorage w' = localStorage w" "href w' = href w" "ticks w' = ticks w"
      "fetched w' = Suc (fetched w)"
      "trace w' = trace w @ [Fetch (get_request url tok) Rejected]"
  | (returned) resp where "server e (fetched w) (get_request url tok) = Resolved resp"
      "status resp \<noteq> 401" "r = Inr resp"
      "localStorage w' = localStorage w" "href w' = href w" "ticks w' = ticks w"
      "fetched w' = Suc (fetched w)"
      "trace w' = trace w @ [Fetch (get_request url tok) (Resolved resp)]"
  | (refresh_failed) resp err w1 where "server e (fetched w) (get_request url tok) = Resolved resp"
      "status resp = 401" "r = Inl Auth_failed"
      "localStorage w1 = localStorage w" "href w1 = href w" "ticks w1 = ticks w"
      "fetched w1 = Suc (fetched w)"
      "trace w1 = trace w @ [Fetch (get_request url tok) (Resolved resp)]"
      "refresh_tokens e tok w1 = (Inl err, w')"
  | (retried) resp s w1 w2 where "server e (fetched w) (get_request url tok) = Resolved resp"
      "status resp = 401"
      "localStorage w1 = localStorage w" "href w1 = href w" "ticks w1 = ticks w"
      "fetched w1 = Suc (fetched w)"
      "trace w1 = trace w @ [Fetch (get_request url tok) (Resolved resp)]"
      "refresh_tokens e tok w1 = (Inr s, w2)"
      "r = (case server e (fetched w2) (get_request url (access_token s)) of
              Rejected \<Rightarrow> Inl Auth_failed | Resolved response2 \<Rightarrow> Inr response2)"
      "localStorage w' = localStorage w2" "href w' = href w2" "ticks w' = ticks w2"
      "fetched w' = Suc (fetched w2)"
      "trace w' = trace w2 @ [Fetch (get_request url (access_token s))
           (server e (fetched w2) (get_request url (access_token s)))]"
proof -
  let ?w1 = "w\<lparr>fetched := Suc (fetched w),
         trace := trace w @ [Fetch (get_request url tok) (server e (fetched w) (get_request url tok))]\<rparr>"
  show ?thesis
  proof (cases "server e (fetched w) (get_request url tok)")
    case Rejected
    with assms get_rejected show ?thesis
      by (auto simp add: request_with_retry_def fetch_def Let_def)
  next
    case (Resolved resp)
    show ?thesis
    proof (cases "status resp = 401")
      case False
      with assms Resolved returned show ?thesis
        by (auto simp add: request_with_retry_def fetch_def Let_def)
    next
      case True
      obtain rr w2 where rt: "refresh_tokens e tok ?w1 = (rr, w2)"
        by (cases "refresh_tokens e tok ?w1")
      show ?thesis
      proof (cases rr)
        case (Inl err)
        with assms Resolved True rt refresh_failed [of resp ?w1 err] show ?thesis
          by (auto simp add: request_with_retry_def fetch_def Let_def)
      next
        case (Inr s)
        with assms Resolved True rt retried [of resp ?w1 s w2] show ?thesis
          by (auto simp add: request_with_retry_def fetch_def Let_def split: fetch_result.splits)
      qed
    qed
  qed
qed

lemma t3kFetchE:
  assumes "t3kFetch e url w = (r, w')"
  obtains
    (no_access) "falsy (localStorage w access_key)" "r = Inl No_access_token"
      "localStorage w' = localStorage w" "href w' = href w" "ticks w' = ticks w"
      "fetched w' = fetched w"
      "trace w' = trace w @ [GetItem access_key, GetItem expires_key]"
  | (direct) w3 where "\<not> falsy (localStorage w access_key)"
      "\<not> token_expiring (clock e (ticks w)) (parseInt (or_default (localStorage w expires_key) ''0''))"
      "localStorage w3 = localStorage w" "href w3 = href w" "ticks w3 = Suc (ticks w)"
      "fetched w3 = fetched w"
      "trace w3 = trace w @ [GetItem access_key, GetItem expires_key, Now (clock e (ticks w))]"
      "request_with_retry e url (or_default (localStorage w access_key) []) w3 = (r, w')"
  | (not_refreshed) err w3 where "\<not> falsy (localStorage w access_key)"
      "token_expiring (clock e (ticks w)) (parseInt (or_default (localStorage w expires_key) ''0''))"
      "localStorage w3 = localStorage w" "href w3 = href w" "ticks w3 = Suc (ticks w)"
      "fetched w3 = fetched w"
      "trace w3 = trace w @ [GetItem access_key, GetItem expires_key, Now (clock e (ticks w))]"
      "refresh_tokens e (or_default (localStorage w access_key) []) w3 = (Inl err, w')"
      "r = Inl Auth_failed"
  | (refreshed) s w3 w4 where "\<not> falsy (localStorage w access_key)"
      "token_expiring (clock e (ticks w)) (parseInt (or_default (localStorage w expires_key) ''0''))"
      "localStorage w3 = localStorage w" "href w3 = href w" "ticks w3 = Suc (ticks w)"
      "fetched w3 = fetched w"
      "trace w3 = trace w @ [GetItem access_key, GetItem expires_key, Now (clock e (ticks w))]"
      "refresh_tokens e (or_default (localStorage w access_key) []) w3 = (Inr s, w4)"
      "request_with_retry e url (access_token s) w4 = (r, w')"
proof -
  let ?w3 = "w\<lparr>ticks := Suc (ticks w),
      trace := trace w @ [GetItem access_key, GetItem expires_key, Now (clock e (ticks w))]\<rparr>"
  let ?tok = "or_default (localStorage w access_key) []"
  show ?thesis
  proof (cases "falsy (localStorage w access_key)")
    case True
    with assms no_access show ?thesis
      by (auto simp add: t3kFetch_def getItem_def Let_def)
  next
    case nf: False
    show ?thesis
    proof (cases "token_expiring (clock e (ticks w)) (parseInt (or_default (localStorage w expires_key) ''0''))")
      case False
      with assms nf direct [of ?w3] show ?thesis
        by (auto simp add: t3kFetch_def getItem_def Date_now_def Let_def)
    next
      case True
      obtain rr w4 where rt: "refresh_tokens e ?tok ?w3 = (rr, w4)"
        by (cases "refresh_tokens e ?tok ?w3")
      show ?thesis
      proof (cases rr)
        case (Inl err)
        with assms nf True rt not_refreshed [of ?w3 err] show ?thesis
          by (auto simp add: t3kFetch_def getItem_def Date_now_def Let_def)
      next
        case (Inr s)
        with assms nf True rt refreshed [of ?w3 s w4] show ?thesis
          by (auto simp add: t3kFetch_def getItem_def Date_now_def Let_def)
      qed
    qed
  qed
qed


subsection \<open>Running the wrapper on a concrete store\<close>

lemma session_A2_sel [simp]:
  "access_token session_A2 = ''A2''" "refresh_token session_A2 = ''R2''"
  "expires_in session_A2 = 3600"
  by (simp_all add: session_A2_def)

lemma resp_status [simp]:
  "status resp_session = 200" "status resp_ok = 200" "status resp_not_found = 404"
  "status resp_unauthorized = 401"
  by (simp_all add: resp_session_def resp_ok_def resp_not_found_def resp_unauthorized_def)

lemma resp_ok_iff [simp]:
  "ok resp_session" "ok resp_ok" "\<not> ok resp_not_found" "\<not> ok resp_unauthorized"
  by (simp_all add: ok_def)

lemma resp_json [simp]:
  "json resp_session = Some session_A2" "json resp_ok = None" "json resp_not_found = None"
  "json resp_unauthorized = None"
  by (simp_all add: json_def resp_session_def resp_ok_def resp_not_found_def
      resp_unauthorized_def)

lemmas run_defs = t3kFetch_def request_with_retry_def refresh_tokens_def handleAuth_def
  effect_defs token_expiring_def falsy_def or_default_def Let_def events_of_def
  before_first_get_def from_first_get_def
  parseInt_def is_white_space_def radix_digit_def digit_value_def digits_value_def
  String_number_def decimal.simps digit_char_table
  store_A1_def store_no_refresh_def store_no_expiry_def store_NaN_def store_empty_def
  env_early_def env_late_def env_unauthorized_def env_revoked_def

lemma store_trace [simp]:
  "trace store_A1 = []" "trace store_no_refresh = []" "trace store_no_expiry = []"
  "trace store_NaN = []" "trace store_empty = []"
  by (simp_all add: store_A1_def store_no_refresh_def store_no_expiry_def store_NaN_def
      store_empty_def)

lemma session_request_sel [simp]:
  "req_method (session_request e k) = POST" "req_url (session_request e k) = session_url e"
  by (simp_all add: session_request_def)

lemma run_early:
  "fst (t3kFetch env_early user_url store_A1) = Inr resp_not_found"
  "trace (snd (t3kFetch env_early user_url store_A1)) =
     [GetItem access_key, GetItem expires_key, Now 1010000,
      Fetch (get_request user_url ''A1'') (Resolved resp_not_found)]"
  "localStorage (snd (t3kFetch env_early user_url store_A1)) = localStorage store_A1"
  by (simp_all add: run_defs)



lemma run_revoked:
  "fst (t3kFetch env_revoked user_url store_A1) = Inl Auth_failed"
  "trace (snd (t3kFetch env_revoked user_url store_A1)) =
     [GetItem access_key, GetItem expires_key, Now 4595000, GetItem refresh_key,
      Fetch (refresh_request env_revoked ''R1'' ''A1'') (Resolved resp_unauthorized),
      RemoveItem access_key, RemoveItem refresh_key, RemoveItem expires_key,
      Navigate (auth_url env_revoked)]"
  "localStorage (snd (t3kFetch env_revoked user_url store_A1)) access_key = None"
  "localStorage (snd (t3kFetch env_revoked user_url store_A1)) refresh_key = None"
  "localStorage (snd (t3kFetch env_revoked user_url store_A1)) expires_key = None"
  "href (snd (t3kFetch env_revoked user_url store_A1)) = auth_url env_revoked"
  by (simp_all add: run_defs)

lemma run_no_refresh_early:
  "fst (t3kFetch env_early user_url store_no_refresh) = Inr resp_not_found"
  "trace (snd (t3kFetch env_early user_url store_no_refresh)) =
     [GetItem access_key, GetItem expires_key, Now 1010000,
      Fetch (get_request user_url ''A1'') (Resolved resp_not_found)]"
  by (simp_all add: run_defs)

lemma run_no_refresh_late:
  "fst (t3kFetch env_late user_url store_no_refresh) = Inl Auth_failed"
  "trace (snd (t3kFetch env_late user_url store_no_refresh)) =
     [GetItem access_key, GetItem expires_key, Now 4595000, GetItem refresh_key]"
  "localStorage (snd (t3kFetch env_late user_url store_no_refresh)) access_key = Some ''A1''"
  "localStorage (snd (t3kFetch env_late user_url store_no_refresh)) expires_key = Some ''4600000''"
  "href (snd (t3kFetch env_late user_url store_no_refresh)) = ''http://localhost:3001/''"
  by (simp_all add: run_defs)

lemma run_NaN:
  "fst (t3kFetch env_late user_url store_NaN) = Inr resp_ok"
  "trace (snd (t3kFetch env_late user_url store_NaN)) =
     [GetItem access_key, GetItem expires_key, Now 4595000,
      Fetch (get_request user_url ''A1'') (Resolved resp_ok)]"
  by (simp_all add: run_defs)

lemma run_no_expiry:
  "fst (t3kFetch env_late user_url store_no_expiry) = Inr resp_ok"
  "trace (snd (t3kFetch env_late user_url store_no_expiry)) =
     [GetItem access_key, GetItem expires_key, Now 4595000, GetItem refresh_key,
      Fetch (refresh_request env_late ''R1'' ''A1'') (Resolved resp_session),
      SetItem access_key ''A2'', SetItem refresh_key ''R2'', Now 4595001,
      SetItem expires_key ''8195001'',
      Fetch (get_request user_url ''A2'') (Resolved resp_ok)]"
  by (simp_all add: run_defs)

lemma run_empty:
  "fst (t3kFetch env_early user_url store_empty) = Inl No_access_token"
  "trace (snd (t3kFetch env_early user_url store_empty)) = [GetItem access_key, GetItem expires_key]"
  by (simp_all add: run_defs)


section \<open>The claims\<close>

subsection \<open>C1: the proactive refresh\<close>

lemma proactive_paths:
  assumes "t3kFetch e url w = (res, w')"
    and "\<not> falsy (localStorage w access_key)"
    and "parseInt (or_default (localStorage w expires_key) ''0'') = Some expires_at"
  shows "length (filter is_refresh_read (before_first_get (events_of w w')))
       = (if clock e (ticks w) > expires_at - 30000 then 1 else 0)
     \<and> filter is_fetch (before_first_get (events_of w w'))
       = (if clock e (ticks w) > expires_at - 30000 \<and> \<not> falsy (localStorage w refresh_key)
          then [Fetch (refresh_request e (or_default (localStorage w refresh_key) [])
                         (or_default (localStorage w access_key) []))
                  (server e (fetched w)
                     (refresh_request e (or_default (localStorage w refresh_key) [])
                        (or_default (localStorage w access_key) [])))]
          else [])
     \<and> (clock e (ticks w) \<le> expires_at - 30000 \<longrightarrow>
          take 1 (filter is_fetch (events_of w w'))
            = [Fetch (get_request url (or_default (localStorage w access_key) []))
                 (server e (fetched w) (get_request url (or_default (localStorage w access_key) [])))])"
  using assms
  by (elim t3kFetchE request_with_retryE refresh_tokensE)
     (auto simp add: events_of_def before_first_get_def token_expiring_def)

text \<open>
  C1. For a call with a stored access token and a stored expiry that reads as the number
  \<open>expires_at\<close>, with \<open>now\<close> the clock reading of the call: the number of refreshes begun
  before the first GET is one if \<open>now > expires_at - 30000\<close> and zero otherwise (the
  margin is the constant 30000). The network requests before the first GET are exactly
  one POST to the refresh endpoint, carrying the stored refresh and access tokens, when
  \<open>now > expires_at - 30000\<close> and a refresh token is stored, and none otherwise. When
  \<open>now \<le> expires_at - 30000\<close> the first network request of the call is the GET with the
  stored access token.
\<close>

theorem proactive_refresh_iff_expiring:
  assumes "\<not> falsy (localStorage w access_key)"
    and "parseInt (or_default (localStorage w expires_key) ''0'') = Some expires_at"
  shows "length (filter is_refresh_read
            (before_first_get (events_of w (snd (t3kFetch e url w)))))
       = (if clock e (ticks w) > expires_at - 30000 then 1 else 0)
     \<and> filter is_fetch (before_first_get (events_of w (snd (t3kFetch e url w))))
       = (if clock e (ticks w) > expires_at - 30000 \<and> \<not> falsy (localStorage w refresh_key)
          then [Fetch (refresh_request e (or_default (localStorage w refresh_key) [])
                         (or_default (localStorage w access_key) []))
                  (server e (fetched w)
                     (refresh_request e (or_default (localStorage w refresh_key) [])
                        (or_default (localStorage w access_key) [])))]
          else [])
     \<and> (clock e (ticks w) \<le> expires_at - 30000 \<longrightarrow>
          take 1 (filter is_fetch (events_of w (snd (t3kFetch e url w))))
            = [Fetch (get_request url (or_default (localStorage w access_key) []))
                 (server e (fetched w) (get_request url (or_default (localStorage w access_key) [])))])"
  using assms
    proactive_paths [of e url w "fst (t3kFetch e url w)" "snd (t3kFetch e url w)" expires_at]
  by simp

theorem proactive_refresh_iff_expiring_witness:
  "\<not> falsy (localStorage store_A1 access_key)
   \<and> parseInt (or_default (localStorage store_A1 expires_key) ''0'') = Some 4600000
   \<and> clock env_late (ticks store_A1) > 4600000 - 30000
   \<and> length (filter is_refresh_read
        (before_first_get (events_of store_A1 (snd (t3kFetch env_late user_url store_A1))))) = 1
   \<and> clock env_early (ticks store_A1) \<le> 4600000 - 30000
   \<and> length (filter is_refresh_read
        (before_first_get (events_of store_A1 (snd (t3kFetch env_early user_url store_A1))))) = 0"
proof -
  have a: "\<not> falsy (localStorage store_A1 access_key)"
    by (simp add: run_defs)
  have p: "parseInt (or_default (localStorage store_A1 expires_key) ''0'') = Some 4600000"
    by (simp add: run_defs)
  have late: "clock env_late (ticks store_A1) > 4600000 - 30000"
    by (simp add: env_late_def store_A1_def)
  have early: "clock env_early (ticks store_A1) \<le> 4600000 - 30000"
    by (simp add: env_early_def store_A1_def)
  from proactive_refresh_iff_expiring [OF a p, of env_late user_url]
    proactive_refresh_iff_expiring [OF a p, of env_early user_url] a p late early
  show ?thesis by simp
qed

subsection \<open>C2: one retry after a 401\<close>




subsection \<open>C3: a refused refresh\<close>

lemma refused_paths:
  assumes "t3kFetch e url w = (res, w')"
    and "Fetch prq (Resolved rr) \<in> set (events_of w w')"
    and "is_refresh_post e (Fetch prq (Resolved rr))"
    and "\<not> ok rr"
  shows "res = Inl Auth_failed
     \<and> localStorage w' access_key = None \<and> localStorage w' refresh_key = None
     \<and> localStorage w' expires_key = None
     \<and> href w' = auth_url e
     \<and> last (events_of w w') = Navigate (auth_url e)
     \<and> (Fetch prq (Resolved rr) \<in> set (before_first_get (events_of w w'))
          \<longrightarrow> filter is_get (events_of w w') = [])"
  using assms
  by (elim t3kFetchE request_with_retryE refresh_tokensE)
     (auto simp add: events_of_def before_first_get_def)

text \<open>
  C3. When a POST to the refresh endpoint made by a call is answered with a response that
  is not successful, the call fails with the authentication-failed error, the three token
  entries are absent from the store afterwards, the location of the user agent is the
  authentication entry point with the application's return URL as \<open>redirect_url\<close>, and
  that navigation is the last thing the call does. When the refused refresh came before
  any GET, the call made no GET at all.
\<close>

theorem refused_refresh_clears_and_redirects:
  assumes "Fetch prq (Resolved rr) \<in> set (events_of w (snd (t3kFetch e url w)))"
    and "is_refresh_post e (Fetch prq (Resolved rr))"
    and "\<not> ok rr"
  shows "fst (t3kFetch e url w) = Inl Auth_failed
     \<and> localStorage (snd (t3kFetch e url w)) access_key = None
     \<and> localStorage (snd (t3kFetch e url w)) refresh_key = None
     \<and> localStorage (snd (t3kFetch e url w)) expires_key = None
     \<and> href (snd (t3kFetch e url w))
         = API_DOMAIN e @ ''/api/v1/auth?redirect_url='' @ encodeURIComponent ''http://localhost:3001''
     \<and> last (events_of w (snd (t3kFetch e url w))) = Navigate (auth_url e)
     \<and> (Fetch prq (Resolved rr) \<in> set (before_first_get (events_of w (snd (t3kFetch e url w))))
          \<longrightarrow> filter is_get (events_of w (snd (t3kFetch e url w))) = [])"
  using assms
    refused_paths [of e url w "fst (t3kFetch e url w)" "snd (t3kFetch e url w)" prq rr]
  by (simp add: auth_url_def redirectUrl_def)

theorem refused_refresh_clears_and_redirects_witness:
  "Fetch (refresh_request env_revoked ''R1'' ''A1'') (Resolved resp_unauthorized)
     \<in> set (events_of store_A1 (snd (t3kFetch env_revoked user_url store_A1)))
   \<and> is_refresh_post env_revoked
        (Fetch (refresh_request env_revoked ''R1'' ''A1'') (Resolved resp_unauthorized))
   \<and> \<not> ok resp_unauthorized
   \<and> Fetch (refresh_request env_revoked ''R1'' ''A1'') (Resolved resp_unauthorized)
     \<in> set (before_first_get (events_of store_A1 (snd (t3kFetch env_revoked user_url store_A1))))
   \<and> fst (t3kFetch env_revoked user_url store_A1) = Inl Auth_failed
   \<and> localStorage (snd (t3kFetch env_revoked user_url store_A1)) refresh_key = None
   \<and> href (snd (t3kFetch env_revoked user_url store_A1))
       = ''https://www.tone3000.com/api/v1/auth?redirect_url=http%3A%2F%2Flocalhost%3A3001''
   \<and> filter is_get (events_of store_A1 (snd (t3kFetch env_revoked user_url store_A1))) = []"
proof -
  have m: "Fetch (refresh_request env_revoked ''R1'' ''A1'') (Resolved resp_unauthorized)
     \<in> set (events_of store_A1 (snd (t3kFetch env_revoked user_url store_A1)))"
    by (simp add: run_revoked events_of_def)
  have p: "is_refresh_post env_revoked
        (Fetch (refresh_request env_revoked ''R1'' ''A1'') (Resolved resp_unauthorized))"
    by simp
  have n: "\<not> ok resp_unauthorized" by simp
  have b: "Fetch (refresh_request env_revoked ''R1'' ''A1'') (Resolved resp_unauthorized)
     \<in> set (before_first_get (events_of store_A1 (snd (t3kFetch env_revoked user_url store_A1))))"
    by (simp add: run_revoked events_of_def before_first_get_def)
  have d: "API_DOMAIN env_revoked = ''https://www.tone3000.com''"
    by (simp add: API_DOMAIN_def or_default_def env_revoked_def)
  from refused_refresh_clears_and_redirects [OF m p n] m p n b
  show ?thesis by (simp add: d redirectUrl_value [unfolded redirectUrl_def])
qed

subsection \<open>C4: calling without a Session\<close>

lemma no_access_paths:
  assumes "t3kFetch e url w = (res, w')"
  shows "(res = Inl No_access_token \<longleftrightarrow> falsy (localStorage w access_key))
     \<and> (falsy (localStorage w access_key) \<longrightarrow>
          events_of w w' = [GetItem access_key, GetItem expires_key]
          \<and> localStorage w' = localStorage w \<and> href w' = href w)"
  using assms
  by (elim t3kFetchE request_with_retryE refresh_tokensE)
     (auto simp add: events_of_def split: fetch_result.splits)

text \<open>
  C4, as stated, fails: the store below holds an access token and an expiry but no refresh
  token, so it holds no complete Session; the call yet sends the GET and returns its
  response.
\<close>

theorem partial_session_is_not_treated_as_absent:
  "\<not> complete_session store_no_refresh
   \<and> fst (t3kFetch env_early user_url store_no_refresh) = Inr resp_not_found
   \<and> filter is_fetch (events_of store_no_refresh (snd (t3kFetch env_early user_url store_no_refresh)))
       = [Fetch (get_request user_url ''A1'') (Resolved resp_not_found)]"
  by (simp add: run_no_refresh_early events_of_def)
     (simp add: complete_session_def store_no_refresh_def)

text \<open>
  C4, amended. The call fails with the no-access-token error exactly when the access token
  entry is missing or empty; the refresh token and the expiry are not part of this check.
  When it fails so, the call only reads the access token and the expiry: it makes no
  network request and leaves the store and the location as they were.
\<close>

theorem missing_access_token_fails_without_network:
  "(fst (t3kFetch e url w) = Inl No_access_token \<longleftrightarrow> falsy (localStorage w access_key))
     \<and> (falsy (localStorage w access_key) \<longrightarrow>
          events_of w (snd (t3kFetch e url w)) = [GetItem access_key, GetItem expires_key]
          \<and> localStorage (snd (t3kFetch e url w)) = localStorage w
          \<and> href (snd (t3kFetch e url w)) = href w)"
  using no_access_paths [of e url w "fst (t3kFetch e url w)" "snd (t3kFetch e url w)"]
  by simp

theorem missing_access_token_fails_without_network_witness:
  "falsy (localStorage store_empty access_key)
   \<and> fst (t3kFetch env_early user_url store_empty) = Inl No_access_token
   \<and> events_of store_empty (snd (t3kFetch env_early user_url store_empty))
       = [GetItem access_key, GetItem expires_key]
   \<and> filter is_fetch (events_of store_empty (snd (t3kFetch env_early user_url store_empty))) = []"
proof -
  have f: "falsy (localStorage store_empty access_key)"
    by (simp add: falsy_def store_empty_def)
  from missing_access_token_fails_without_network [of env_early user_url store_empty] f
  show ?thesis by simp
qed

subsection \<open>C5: a refresh without a refresh token\<close>

lemma no_refresh_token_paths:
  assumes "t3kFetch e url w = (res, w')"
    and "falsy (localStorage w refresh_key)"
    and "filter is_refresh_read (events_of w w') \<noteq> []"
  shows "res = Inl Auth_failed
     \<and> filter (is_refresh_post e) (events_of w w') = []
     \<and> last (events_of w w') = GetItem refresh_key
     \<and> localStorage w' = localStorage w \<and> href w' = href w
     \<and> filter is_navigate (events_of w w') = []"
  using assms
  by (elim t3kFetchE request_with_retryE refresh_tokensE)
     (auto simp add: events_of_def)

text \<open>
  C5, as stated, fails: five seconds before the expiry, with no refresh token stored, the
  call begins a refresh and fails, but the access token and the expiry are still in the
  store afterwards, the location is unchanged and no navigation took place.
\<close>

theorem missing_refresh_token_does_not_clear:
  "falsy (localStorage store_no_refresh refresh_key)
   \<and> filter is_refresh_read
       (events_of store_no_refresh (snd (t3kFetch env_late user_url store_no_refresh)))
       = [GetItem refresh_key]
   \<and> fst (t3kFetch env_late user_url store_no_refresh) = Inl Auth_failed
   \<and> localStorage (snd (t3kFetch env_late user_url store_no_refresh)) access_key = Some ''A1''
   \<and> localStorage (snd (t3kFetch env_late user_url store_no_refresh)) expires_key = Some ''4600000''
   \<and> href (snd (t3kFetch env_late user_url store_no_refresh)) = href store_no_refresh
   \<and> filter is_navigate
       (events_of store_no_refresh (snd (t3kFetch env_late user_url store_no_refresh))) = []"
  by (simp add: run_no_refresh_late events_of_def)
     (simp add: falsy_def store_no_refresh_def)

text \<open>
  C5, amended. When a call begins a refresh (before the GET or after a 401) and the store
  held no refresh token, missing or empty, at the start of the call, the refresh fails at
  once: reading the refresh token is the last thing the call does, no POST to the refresh
  endpoint is made, and the call fails with the authentication-failed error. The store
  and the location are left as they were; there is no navigation.
\<close>

theorem missing_refresh_token_fails_at_once:
  assumes "falsy (localStorage w refresh_key)"
    and "filter is_refresh_read (events_of w (snd (t3kFetch e url w))) \<noteq> []"
  shows "fst (t3kFetch e url w) = Inl Auth_failed
     \<and> filter (is_refresh_post e) (events_of w (snd (t3kFetch e url w))) = []
     \<and> last (events_of w (snd (t3kFetch e url w))) = GetItem refresh_key
     \<and> localStorage (snd (t3kFetch e url w)) = localStorage w
     \<and> href (snd (t3kFetch e url w)) = href w
     \<and> filter is_navigate (events_of w (snd (t3kFetch e url w))) = []"
  using assms
    no_refresh_token_paths [of e url w "fst (t3kFetch e url w)" "snd (t3kFetch e url w)"]
  by simp

theorem missing_refresh_token_fails_at_once_witness:
  "falsy (localStorage store_no_refresh refresh_key)
   \<and> filter is_refresh_read
       (events_of store_no_refresh (snd (t3kFetch env_late user_url store_no_refresh))) \<noteq> []
   \<and> fst (t3kFetch env_late user_url store_no_refresh) = Inl Auth_failed
   \<and> localStorage (snd (t3kFetch env_late user_url store_no_refresh))
       = localStorage store_no_refresh
   \<and> last (events_of store_no_refresh (snd (t3kFetch env_late user_url store_no_refresh)))
       = GetItem refresh_key"
proof -
  have f: "falsy (localStorage store_no_refresh refresh_key)"
    by (simp add: falsy_def store_no_refresh_def)
  have r: "filter is_refresh_read
       (events_of store_no_refresh (snd (t3kFetch env_late user_url store_no_refresh))) \<noteq> []"
    by (simp add: run_no_refresh_late events_of_def)
  from missing_refresh_token_fails_at_once [OF f r] f r show ?thesis by simp
qed

subsection \<open>C6: a first response other than 401\<close>

lemma not_401_returned:
  assumes "t3kFetch e url w = (res, w')"
    and "from_first_get (events_of w w') = Fetch rq (Resolved r) # rest"
    and "status r \<noteq> 401"
  shows "res = Inr r \<and> rest = [] \<and> req_method rq = GET \<and> req_url rq = url
     \<and> length (filter is_get (events_of w w')) = 1"
  using assms
  by (elim t3kFetchE request_with_retryE refresh_tokensE)
     (auto simp add: events_of_def from_first_get_def)

text \<open>
  C6. When the response to the first GET of a call has a status other than 401, that
  response is the result of the call, nothing at all happens after it (no refresh, no
  retry), and the call made exactly one GET, to the caller's URL.
\<close>

theorem first_response_not_401_is_returned:
  assumes "from_first_get (events_of w (snd (t3kFetch e url w))) = Fetch rq (Resolved r) # rest"
    and "status r \<noteq> 401"
  shows "fst (t3kFetch e url w) = Inr r \<and> rest = [] \<and> req_method rq = GET \<and> req_url rq = url
     \<and> length (filter is_get (events_of w (snd (t3kFetch e url w)))) = 1"
  using assms not_401_returned [of e url w "fst (t3kFetch e url w)" "snd (t3kFetch e url w)" rq r rest]
  by simp

theorem first_response_not_401_is_returned_witness:
  "from_first_get (events_of store_A1 (snd (t3kFetch env_early user_url store_A1)))
     = [Fetch (get_request user_url ''A1'') (Resolved resp_not_found)]
   \<and> status resp_not_found \<noteq> 401
   \<and> fst (t3kFetch env_early user_url store_A1) = Inr resp_not_found
   \<and> length (filter is_get (events_of store_A1 (snd (t3kFetch env_early user_url store_A1)))) = 1"
proof -
  have h: "from_first_get (events_of store_A1 (snd (t3kFetch env_early user_url store_A1)))
     = [Fetch (get_request user_url ''A1'') (Resolved resp_not_found)]"
    by (simp add: run_early events_of_def from_first_get_def)
  have s: "status resp_not_found \<noteq> 401" by simp
  from first_response_not_401_is_returned [OF h s] h s show ?thesis by simp
qed

subsection \<open>C7: the stored expiry\<close>






subsection \<open>C8: the store is updated before the request goes on\<close>




subsection \<open>C9: a missing or unreadable expiry\<close>

lemma no_expiry_paths:
  assumes "t3kFetch e url w = (res, w')"
    and "\<not> falsy (localStorage w access_key)"
    and "falsy (localStorage w expires_key)"
  shows "parseInt (or_default (localStorage w expires_key) ''0'') = Some 0
     \<and> length (filter is_refresh_read (before_first_get (events_of w w')))
       = (if clock e (ticks w) > - 30000 then 1 else 0)"
proof -
  have p: "parseInt (or_default (localStorage w expires_key) ''0'') = Some 0"
    using assms(3) by (auto simp add: run_defs split: option.splits)
  from assms(1,2) p show ?thesis
    by (elim t3kFetchE request_with_retryE refresh_tokensE)
       (auto simp add: events_of_def before_first_get_def token_expiring_def)
qed

text \<open>
  C9, as stated, fails: the stored expiry \<open>NaN\<close> does not read as an integer, and
  \<open>parseInt\<close> gives \<open>NaN\<close> for it, not 0. The comparison with the clock is then false:
  five seconds before the real expiry the call begins no refresh and its first network
  request is the GET with the stored access token.
\<close>

theorem unreadable_expiry_skips_proactive_refresh:
  "localStorage store_NaN expires_key = Some ''NaN''
   \<and> parseInt ''NaN'' = None
   \<and> \<not> falsy (localStorage store_NaN access_key)
   \<and> filter is_refresh_read (events_of store_NaN (snd (t3kFetch env_late user_url store_NaN))) = []
   \<and> take 1 (filter is_fetch (events_of store_NaN (snd (t3kFetch env_late user_url store_NaN))))
       = [Fetch (get_request user_url ''A1'') (Resolved resp_ok)]"
  by (simp add: run_NaN events_of_def) (simp add: run_defs)

text \<open>
  C9, amended. For a call with a stored access token whose expiry entry is missing or
  empty, the expiry is read as 0, so a refresh is begun before any GET exactly when the
  clock reading is above \<open>-30000\<close>, hence at every clock reading that is not negative.
\<close>

theorem missing_expiry_is_read_as_zero:
  assumes "\<not> falsy (localStorage w access_key)"
    and "falsy (localStorage w expires_key)"
  shows "parseInt (or_default (localStorage w expires_key) ''0'') = Some 0
     \<and> length (filter is_refresh_read
          (before_first_get (events_of w (snd (t3kFetch e url w)))))
       = (if clock e (ticks w) > - 30000 then 1 else 0)"
  using assms
    no_expiry_paths [of e url w "fst (t3kFetch e url w)" "snd (t3kFetch e url w)"]
  by simp

theorem missing_expiry_is_read_as_zero_witness:
  "\<not> falsy (localStorage store_no_expiry access_key)
   \<and> falsy (localStorage store_no_expiry expires_key)
   \<and> clock env_late (ticks store_no_expiry) > - 30000
   \<and> length (filter is_refresh_read
        (before_first_get (events_of store_no_expiry (snd (t3kFetch env_late user_url store_no_expiry)))))
       = 1"
proof -
  have a: "\<not> falsy (localStorage store_no_expiry access_key)"
    by (simp add: falsy_def store_no_expiry_def)
  have x: "falsy (localStorage store_no_expiry expires_key)"
    by (simp add: falsy_def store_no_expiry_def)
  have c: "clock env_late (ticks store_no_expiry) > - 30000"
    by (simp add: env_late_def store_no_expiry_def)
  from missing_expiry_is_read_as_zero [OF a x, of env_late user_url] a x c
  show ?thesis by simp
qed

subsection \<open>C10: the happy path does not write the store\<close>

lemma happy_path_store:
  assumes "t3kFetch e url w = (res, w')"
    and "parseInt (or_default (localStorage w expires_key) ''0'') = Some expires_at"
    and "clock e (ticks w) \<le> expires_at - 30000"
    and "from_first_get (events_of w w') = Fetch rq (Resolved r) # rest"
    and "status r \<noteq> 401"
  shows "localStorage w' = localStorage w"
  using assms
  by (elim t3kFetchE request_with_retryE refresh_tokensE)
     (auto simp add: events_of_def from_first_get_def token_expiring_def)

text \<open>
  C10. When the clock reading of the call is at most \<open>expires_at - 30000\<close> and the
  response to the first GET has a status other than 401, the store after the call is the
  store before it, at every key (the three token entries and the \<open>api_key\<close> cache alike).
\<close>

theorem happy_path_leaves_store_unchanged:
  assumes "parseInt (or_default (localStorage w expires_key) ''0'') = Some expires_at"
    and "clock e (ticks w) \<le> expires_at - 30000"
    and "from_first_get (events_of w (snd (t3kFetch e url w))) = Fetch rq (Resolved r) # rest"
    and "status r \<noteq> 401"
  shows "localStorage (snd (t3kFetch e url w)) = localStorage w"
  using assms
    happy_path_store [of e url w "fst (t3kFetch e url w)" "snd (t3kFetch e url w)" expires_at rq r rest]
  by simp

theorem happy_path_leaves_store_unchanged_witness:
  "parseInt (or_default (localStorage store_A1 expires_key) ''0'') = Some 4600000
   \<and> clock env_early (ticks store_A1) \<le> 4600000 - 30000
   \<and> from_first_get (events_of store_A1 (snd (t3kFetch env_early user_url store_A1)))
       = [Fetch (get_request user_url ''A1'') (Resolved resp_not_found)]
   \<and> status resp_not_found \<noteq> 401
   \<and> localStorage (snd (t3kFetch env_early user_url store_A1)) = localStorage store_A1"
proof -
  have p: "parseInt (or_default (localStorage store_A1 expires_key) ''0'') = Some 4600000"
    by (simp add: run_defs)
  have c: "clock env_early (ticks store_A1) \<le> 4600000 - 30000"
    by (simp add: env_early_def store_A1_def)
  have h: "from_first_get (events_of store_A1 (snd (t3kFetch env_early user_url store_A1)))
     = [Fetch (get_request user_url ''A1'') (Resolved resp_not_found)]"
    by (simp add: run_early events_of_def from_first_get_def)
  have s: "status resp_not_found \<noteq> 401" by simp
  from happy_path_leaves_store_unchanged [OF p c h s] p c h s show ?thesis by simp
qed

end
